theory Spec2Isabelle
  imports Complex_Main "HOL-Library.Sublist" "HOL-Library.Multiset" "HOL-Library.Monad_Syntax"
begin

section \<open>Blood bank locator: the query service of backend.py\<close>

text \<open>
  The service reads a table of blood banks, ranks the banks by great-circle distance from a
  point and forwards route requests to a routing service. Everything the handlers read from
  outside (the table pandas has parsed, the process environment, the answer of the routing
  service) is an argument of the model; every exception is a value of type \<open>exn\<close>.
\<close>

subsection \<open>Python floats\<close>

text \<open>
  A finite float is idealised as the real number it stands for: no rounding, no overflow,
  no infinities. NaN is kept as a value of its own: it is what pandas stores in a blank
  cell, every arithmetic operation and every function of the math module used here passes
  it on, and every comparison with it is false.

  Where the floats round, the code can leave the model. In \<open>haversine\<close> the exact \<open>a\<close> lies
  between 0 and 1; for two points opposite each other on the globe it is 1, the floats can
  make it \<open>1 + 2\<^sup>-\<^sup>5\<^sup>2\<close>, and then \<open>math.sqrt(1 - a)\<close> raises where the model returns. What
  is stated below about the result of \<open>get_nearby\<close> is stated for the case that it returns.
\<close>

datatype pyfloat = Fin real | NaN

text \<open>The exceptions the handlers raise, catch or pass on, each with its message.\<close>

datatype exn =
    ValueError string
  | FileNotFoundError string
  | ReadError string
  | TypeError string
  | RequestException string
  | HTTPException nat string

text \<open>The operators \<open>+\<close>, \<open>-\<close>, \<open>*\<close>, \<open>/ 2\<close> and \<open>** 2\<close> on floats.\<close>

definition py_add :: "pyfloat \<Rightarrow> pyfloat \<Rightarrow> pyfloat" where
  "py_add x y = (case (x, y) of (Fin a, Fin b) \<Rightarrow> Fin (a + b) | _ \<Rightarrow> NaN)"

definition py_sub :: "pyfloat \<Rightarrow> pyfloat \<Rightarrow> pyfloat" where
  "py_sub x y = (case (x, y) of (Fin a, Fin b) \<Rightarrow> Fin (a - b) | _ \<Rightarrow> NaN)"

definition py_mul :: "pyfloat \<Rightarrow> pyfloat \<Rightarrow> pyfloat" where
  "py_mul x y = (case (x, y) of (Fin a, Fin b) \<Rightarrow> Fin (a * b) | _ \<Rightarrow> NaN)"

definition py_half :: "pyfloat \<Rightarrow> pyfloat" where
  "py_half x = (case x of Fin a \<Rightarrow> Fin (a / 2) | NaN \<Rightarrow> NaN)"

definition py_square :: "pyfloat \<Rightarrow> pyfloat" where
  "py_square x = (case x of Fin a \<Rightarrow> Fin (a ^ 2) | NaN \<Rightarrow> NaN)"

text \<open>The functions of the math module. \<open>math.sqrt\<close> raises ValueError below zero.\<close>

definition radians :: "pyfloat \<Rightarrow> pyfloat" where
  "radians x = (case x of Fin a \<Rightarrow> Fin (a * pi / 180) | NaN \<Rightarrow> NaN)"

definition math_sin :: "pyfloat \<Rightarrow> pyfloat" where
  "math_sin x = (case x of Fin a \<Rightarrow> Fin (sin a) | NaN \<Rightarrow> NaN)"

definition math_cos :: "pyfloat \<Rightarrow> pyfloat" where
  "math_cos x = (case x of Fin a \<Rightarrow> Fin (cos a) | NaN \<Rightarrow> NaN)"

definition math_sqrt :: "pyfloat \<Rightarrow> exn + pyfloat" where
  "math_sqrt x =
     (case x of
        Fin a \<Rightarrow> if a < 0 then Inl (ValueError ''math domain error'') else Inr (Fin (sqrt a))
      | NaN \<Rightarrow> Inr NaN)"

text \<open>
  The angle of the point \<open>(x, y)\<close> in \<open>(-\<pi>, \<pi>]\<close>, which is what the C library's atan2
  computes; \<open>atan2 0 0 = 0\<close>.
\<close>

definition atan2 :: "real \<Rightarrow> real \<Rightarrow> real" where
  "atan2 y x =
     (if 0 < x then arctan (y / x)
      else if x < 0 then (if 0 \<le> y then arctan (y / x) + pi else arctan (y / x) - pi)
      else if 0 < y then pi / 2
      else if y < 0 then - (pi / 2)
      else 0)"

definition math_atan2 :: "pyfloat \<Rightarrow> pyfloat \<Rightarrow> pyfloat" where
  "math_atan2 y x = (case (y, x) of (Fin b, Fin a) \<Rightarrow> Fin (atan2 b a) | _ \<Rightarrow> NaN)"

subsection \<open>haversine\<close>

text \<open>
  \<^verbatim>\<open>R * 2 * atan2(sqrt(a), sqrt(1 - a))\<close>: both square roots are taken before the product,
  and either may raise. On exact numbers neither does; on floats the second does for some
  pairs of opposite points.
\<close>

definition haversine :: "pyfloat \<Rightarrow> pyfloat \<Rightarrow> pyfloat \<Rightarrow> pyfloat \<Rightarrow> exn + pyfloat" where
  "haversine lat1 lon1 lat2 lon2 =
     (let R = Fin 6371;
          dlat = radians (py_sub lat2 lat1);
          dlon = radians (py_sub lon2 lon1);
          a = py_add (py_square (math_sin (py_half dlat)))
                (py_mul (py_mul (math_cos (radians lat1)) (math_cos (radians lat2)))
                   (py_square (math_sin (py_half dlon))))
      in case math_sqrt a of
           Inl e \<Rightarrow> Inl e
         | Inr s1 \<Rightarrow>
            (case math_sqrt (py_sub (Fin 1) a) of
               Inl e \<Rightarrow> Inl e
             | Inr s2 \<Rightarrow> Inr (py_mul (py_mul R (Fin 2)) (math_atan2 s1 s2))))"

text \<open>
  The formula as the specification words it, on real numbers: latitudes and longitudes are
  converted to radians first, the differences are differences of the converted angles.
\<close>

definition haversine_a :: "real \<Rightarrow> real \<Rightarrow> real \<Rightarrow> real \<Rightarrow> real" where
  "haversine_a lat1 lon1 lat2 lon2 =
     (let phi1 = lat1 * pi / 180; phi2 = lat2 * pi / 180;
          lam1 = lon1 * pi / 180; lam2 = lon2 * pi / 180
      in (sin ((phi2 - phi1) / 2))\<^sup>2 + cos phi1 * cos phi2 * (sin ((lam2 - lam1) / 2))\<^sup>2)"

definition haversine_spec :: "real \<Rightarrow> real \<Rightarrow> real \<Rightarrow> real \<Rightarrow> real" where
  "haversine_spec lat1 lon1 lat2 lon2 =
     2 * 6371 * atan2 (sqrt (haversine_a lat1 lon1 lat2 lon2))
                  (sqrt (1 - haversine_a lat1 lon1 lat2 lon2))"

subsection \<open>Cells, and what the model takes as given\<close>

text \<open>
  A cell of the parsed table is an integer, a float, a string or a boolean, as the type
  pandas inferred for its column has it; a blank cell is the float NaN.
\<close>

datatype cell = IntCell int | FloatCell pyfloat | StrCell string | BoolCell bool

text \<open>
  The model class is a pydantic model, and the repository does not say which pydantic.
  The two major versions differ on a \<open>str\<close> field: version 2 takes a string and nothing
  else, version 1 also takes a number and turns it into its \<open>str\<close>.
\<close>

datatype pydantic_version = V1 | V2

text \<open>
  Given, not modelled: \<open>float(s)\<close> on a string (\<open>None\<close> where it raises ValueError),
  \<open>str(x)\<close> on a float that is not a whole number, \<open>str\<close> of a pandas Series, the
  message of the TypeError that \<open><\<close> raises when an operand is \<open>None\<close>, and the pydantic
  version installed.
\<close>

record py =
  float_of_str :: "string \<Rightarrow> pyfloat option"
  str_of_float :: "real \<Rightarrow> string"
  series_str :: "cell list \<Rightarrow> string"
  lt_type_error :: string
  pydantic :: pydantic_version

text \<open>\<open>str(i)\<close> on an integer: its decimal digits, with a minus sign below zero.\<close>

definition digit_char :: "nat \<Rightarrow> char" where
  "digit_char d =
     (if d = 0 then CHR ''0'' else if d = 1 then CHR ''1'' else if d = 2 then CHR ''2''
      else if d = 3 then CHR ''3'' else if d = 4 then CHR ''4'' else if d = 5 then CHR ''5''
      else if d = 6 then CHR ''6'' else if d = 7 then CHR ''7'' else if d = 8 then CHR ''8''
      else CHR ''9'')"

fun str_of_nat :: "nat \<Rightarrow> string" where
  "str_of_nat n =
     (if n < 10 then [digit_char n]
      else str_of_nat (n div 10) @ [digit_char (n mod 10)])"

definition str_of_int :: "int \<Rightarrow> string" where
  "str_of_int i = (if i < 0 then CHR ''-'' # str_of_nat (nat (- i)) else str_of_nat (nat i))"

text \<open>
  \<open>str(x)\<close> on a float: \<open>nan\<close> for NaN; for a whole number below \<open>10\<^sup>1\<^sup>6\<close> in size its
  digits followed by \<open>.0\<close>; otherwise the shortest decimal that reads back, which is given.
\<close>

definition float_str :: "py \<Rightarrow> pyfloat \<Rightarrow> string" where
  "float_str P x =
     (case x of
        NaN \<Rightarrow> ''nan''
      | Fin a \<Rightarrow>
          if a = of_int \<lfloor>a\<rfloor> \<and> \<bar>a\<bar> < 10 ^ 16 then str_of_int \<lfloor>a\<rfloor> @ ''.0''
          else str_of_float P a)"

text \<open>\<open>str.strip()\<close>: the characters below 256 that Python counts as white space.\<close>

definition is_space :: "char \<Rightarrow> bool" where
  "is_space c = ((of_char c :: nat) \<in> {9, 10, 11, 12, 13, 28, 29, 30, 31, 32, 133, 160})"

definition str_strip :: "string \<Rightarrow> string" where
  "str_strip s = rev (dropWhile is_space (rev (dropWhile is_space s)))"

fun join :: "string \<Rightarrow> string list \<Rightarrow> string" where
  "join sep [] = []"
| "join sep [x] = x"
| "join sep (x # y # ys) = x @ sep @ join sep (y # ys)"

subsection \<open>Exceptions\<close>

text \<open>
  \<open>exn_str\<close> is \<open>str(e)\<close>. An HTTPException prints as its status code, a colon and its detail.
\<close>

fun exn_str :: "exn \<Rightarrow> string" where
  "exn_str (ValueError m) = m"
| "exn_str (FileNotFoundError m) = m"
| "exn_str (ReadError m) = m"
| "exn_str (TypeError m) = m"
| "exn_str (RequestException m) = m"
| "exn_str (HTTPException code detail) = str_of_nat code @ '': '' @ detail"

subsection \<open>Configuration and data model\<close>

definition CSV_PATH :: string where
  "CSV_PATH = ''C:'' @ [char_of (92::nat)] @ ''Users'' @ [char_of (92::nat)] @ ''xoxo3''
     @ [char_of (92::nat)] @ ''OneDrive'' @ [char_of (92::nat)] @ ''Desktop''
     @ [char_of (92::nat)] @ ''New folder'' @ [char_of (92::nat)] @ ''bloodbank''
     @ [char_of (92::nat)] @ ''blood_banks.csv''"

text \<open>
  \<open>col_mapping\<close> is a dictionary that is only ever read at its seven literal keys: the keys
  are a datatype, the dictionary a total function, \<open>col_mapping.values()\<close> the list of its
  values in insertion order.
\<close>

datatype field = Id | Name | Address | City | State | Latitude | Longitude

fun col_mapping :: "field \<Rightarrow> string" where
  "col_mapping Id = ''Sr No''"
| "col_mapping Name = ''Blood Bank Name''"
| "col_mapping Address = ''Address''"
| "col_mapping City = ''City''"
| "col_mapping State = ''State''"
| "col_mapping Latitude = ''latitude''"
| "col_mapping Longitude = ''longitude''"

definition col_mapping_values :: "string list" where
  "col_mapping_values = map col_mapping [Id, Name, Address, City, State, Latitude, Longitude]"

record Location =
  latitude :: pyfloat
  longitude :: pyfloat

text \<open>\<open>distance: float = None\<close>: the field is \<open>None\<close> until something assigns it.\<close>

record BloodBank =
  id' :: string
  name :: string
  address :: string
  city :: string
  state :: string
  latitude :: pyfloat
  longitude :: pyfloat
  distance :: "pyfloat option"

subsection \<open>The table pandas hands over\<close>

text \<open>
  A frame is the list of its column labels and its rows, each row a list of cells in
  column order.
\<close>

record frame =
  columns :: "string list"
  rows :: "cell list list"

text \<open>What is at CSV_PATH: nothing, something \<open>read_csv\<close> raises on, or a table.\<close>

datatype source = NotFound | Unreadable string | Parsed frame

text \<open>
  \<open>row[label]\<close>. Labels can be equal once they are stripped. \<open>row_cells\<close> is every cell of
  the row under the label. Under a label that occurs once \<open>row[label]\<close> is that cell;
  under a label that occurs more than once it is a Series, which \<open>float\<close> and the string
  fields refuse and \<open>str\<close> renders; under a label that does not occur it raises KeyError.
  \<open>row_get\<close> is the access where only a single cell will do, \<open>row_str\<close> is
  \<open>str(row[label])\<close>; \<open>None\<close> is the exception.
\<close>

definition row_cells :: "string list \<Rightarrow> cell list \<Rightarrow> string \<Rightarrow> cell list" where
  "row_cells cols row label = map snd (filter (\<lambda>lc. fst lc = label) (zip cols row))"

definition row_get :: "string list \<Rightarrow> cell list \<Rightarrow> string \<Rightarrow> cell option" where
  "row_get cols row label = (case row_cells cols row label of [c] \<Rightarrow> Some c | _ \<Rightarrow> None)"

text \<open>\<open>df[label] = df[label].fillna("")\<close>: blank cells of that column become the empty string.\<close>

definition fill_cell :: "string \<Rightarrow> string \<times> cell \<Rightarrow> cell" where
  "fill_cell label lc =
     (if fst lc = label \<and> snd lc = FloatCell NaN then StrCell [] else snd lc)"

definition fill_row :: "string \<Rightarrow> string list \<Rightarrow> cell list \<Rightarrow> cell list" where
  "fill_row label cols row = map (fill_cell label) (zip cols row)"

definition fillna :: "string \<Rightarrow> frame \<Rightarrow> frame" where
  "fillna label df = df\<lparr>rows := map (fill_row label (columns df)) (rows df)\<rparr>"

text \<open>What the two \<open>fillna\<close> steps of the loader make of a cell under the label \<open>k\<close>.\<close>

definition refill :: "string \<Rightarrow> cell \<Rightarrow> cell" where
  "refill k c = (if (k = ''Address'' \<or> k = ''City'') \<and> c = FloatCell NaN then StrCell [] else c)"

text \<open>
  \<open>df.iterrows()\<close> hands out each row as a Series of one type, the common type of the
  columns: object when a column holds strings, or booleans beside numbers; float when
  there are only numbers and one column is float, and then the integers come as floats.
  Under object the values are Python's own; otherwise they are numpy's, and a numpy
  integer or boolean is no Python \<open>int\<close>.
\<close>

datatype dtype = Object | Float64 | Int64 | Bool

fun is_str :: "cell \<Rightarrow> bool" where
  "is_str (StrCell s) = True"
| "is_str c = False"

fun is_bool :: "cell \<Rightarrow> bool" where
  "is_bool (BoolCell b) = True"
| "is_bool c = False"

fun is_float :: "cell \<Rightarrow> bool" where
  "is_float (FloatCell x) = True"
| "is_float c = False"

definition frame_dtype :: "cell list list \<Rightarrow> dtype" where
  "frame_dtype rs =
     (if list_ex is_str (concat rs) then Object
      else if list_ex is_bool (concat rs)
        then (if list_all is_bool (concat rs) then Bool else Object)
      else if list_ex is_float (concat rs) then Float64
      else Int64)"

fun widen :: "dtype \<Rightarrow> cell \<Rightarrow> cell" where
  "widen Float64 (IntCell i) = FloatCell (Fin (of_int i))"
| "widen dt c = c"

text \<open>\<open>str(x)\<close> and \<open>float(x)\<close> on a cell.\<close>

fun py_str :: "py \<Rightarrow> cell \<Rightarrow> string" where
  "py_str P (IntCell i) = str_of_int i"
| "py_str P (FloatCell x) = float_str P x"
| "py_str P (StrCell s) = s"
| "py_str P (BoolCell b) = (if b then ''True'' else ''False'')"

fun py_float :: "py \<Rightarrow> cell \<Rightarrow> pyfloat option" where
  "py_float P (IntCell i) = Some (Fin (of_int i))"
| "py_float P (FloatCell x) = Some x"
| "py_float P (StrCell s) = float_of_str P s"
| "py_float P (BoolCell b) = Some (Fin (if b then 1 else 0))"

definition row_str :: "py \<Rightarrow> string list \<Rightarrow> cell list \<Rightarrow> string \<Rightarrow> string option" where
  "row_str P cols row label =
     (case row_cells cols row label of
        [] \<Rightarrow> None
      | [c] \<Rightarrow> Some (py_str P c)
      | c # d # cs \<Rightarrow> Some (series_str P (c # d # cs)))"

text \<open>
  A \<open>str\<close> field of the model class. Both versions take a string as it is. Version 2
  refuses everything else. Version 1 turns a Python \<open>float\<close> or \<open>int\<close> into its \<open>str\<close>: a
  float of either kind (numpy's is a Python float), an integer or a boolean only when the
  row is of type object. A \<open>float\<close> field takes any float, NaN included.
\<close>

definition validate_str :: "py \<Rightarrow> dtype \<Rightarrow> cell \<Rightarrow> string option" where
  "validate_str P dt c =
     (case c of
        StrCell s \<Rightarrow> Some s
      | FloatCell x \<Rightarrow> if pydantic P = V1 then Some (py_str P c) else None
      | IntCell i \<Rightarrow> if pydantic P = V1 \<and> dt = Object then Some (py_str P c) else None
      | BoolCell b \<Rightarrow> if pydantic P = V1 \<and> dt = Object then Some (py_str P c) else None)"

subsection \<open>load_blood_banks\<close>

text \<open>
  The body of the inner \<open>try\<close>, for a row as \<open>iterrows\<close> hands it out: the seven arguments
  are evaluated in order, then the class validates them. \<open>None\<close> is any exception in
  there; the loop catches it, logs it and goes on.
\<close>

definition make_bank :: "py \<Rightarrow> dtype \<Rightarrow> string list \<Rightarrow> cell list \<Rightarrow> BloodBank option" where
  "make_bank P dt cols row =
     do {
       v_id \<leftarrow> row_str P cols row (col_mapping Id);
       c_name \<leftarrow> row_get cols row (col_mapping Name);
       c_address \<leftarrow> row_get cols row (col_mapping Address);
       c_city \<leftarrow> row_get cols row (col_mapping City);
       c_state \<leftarrow> row_get cols row (col_mapping State);
       c_lat \<leftarrow> row_get cols row (col_mapping Latitude);
       lat \<leftarrow> py_float P c_lat;
       c_lon \<leftarrow> row_get cols row (col_mapping Longitude);
       lon \<leftarrow> py_float P c_lon;
       v_name \<leftarrow> validate_str P dt c_name;
       v_address \<leftarrow> validate_str P dt c_address;
       v_city \<leftarrow> validate_str P dt c_city;
       v_state \<leftarrow> validate_str P dt c_state;
       Some \<lparr>id' = v_id, name = v_name, address = v_address, city = v_city,
              state = v_state, latitude = lat, longitude = lon, distance = None\<rparr>
     }"

text \<open>The loop over \<open>df.iterrows()\<close>, appending to \<open>banks\<close>.\<close>

fun collect_banks ::
  "py \<Rightarrow> dtype \<Rightarrow> string list \<Rightarrow> cell list list \<Rightarrow> BloodBank list \<Rightarrow> BloodBank list" where
  "collect_banks P dt cols [] banks = banks"
| "collect_banks P dt cols (row # rest) banks =
     (case make_bank P dt cols (map (widen dt) row) of
        Some bank \<Rightarrow> collect_banks P dt cols rest (banks @ [bank])
      | None \<Rightarrow> collect_banks P dt cols rest banks)"

definition missing_cols :: "frame \<Rightarrow> string list" where
  "missing_cols df = filter (\<lambda>col. col \<notin> set (columns df)) col_mapping_values"

text \<open>The body of the outer \<open>try\<close>.\<close>

definition load_body :: "py \<Rightarrow> source \<Rightarrow> exn + BloodBank list" where
  "load_body P src =
     (case src of
        NotFound \<Rightarrow> Inl (FileNotFoundError (''CSV file not found at '' @ CSV_PATH))
      | Unreadable m \<Rightarrow> Inl (ReadError m)
      | Parsed df0 \<Rightarrow>
          (let df = df0\<lparr>columns := map str_strip (columns df0)\<rparr> in
           if missing_cols df \<noteq> []
           then Inl (ValueError (''CSV missing required columns: '' @ join '', '' (missing_cols df)))
           else
             (let df1 = fillna ''Address'' df;
                  df2 = fillna ''City'' df1
              in Inr (collect_banks P (frame_dtype (rows df2)) (columns df2) (rows df2) []))))"

text \<open>
  What the loader makes of one row of the table as read: the row after both \<open>fillna\<close>
  steps, as \<open>iterrows\<close> hands it out, under the stripped labels.
\<close>

definition filled_rows :: "frame \<Rightarrow> cell list list" where
  "filled_rows df0 =
     map (\<lambda>row. fill_row ''City'' (map str_strip (columns df0))
                 (fill_row ''Address'' (map str_strip (columns df0)) row))
       (rows df0)"

definition row_bank :: "py \<Rightarrow> frame \<Rightarrow> cell list \<Rightarrow> BloodBank option" where
  "row_bank P df0 row =
     make_bank P (frame_dtype (filled_rows df0)) (map str_strip (columns df0))
       (map (widen (frame_dtype (filled_rows df0)))
          (fill_row ''City'' (map str_strip (columns df0))
             (fill_row ''Address'' (map str_strip (columns df0)) row)))"

definition load_blood_banks :: "py \<Rightarrow> source \<Rightarrow> exn + BloodBank list" where
  "load_blood_banks P src =
     (case load_body P src of
        Inl e \<Rightarrow> Inl (HTTPException 500 (''CSV Error: '' @ exn_str e))
      | Inr banks \<Rightarrow> Inr banks)"

subsection \<open>What the data model asks of a row\<close>

text \<open>
  The record the specification describes for one row of the table as read, field by
  field: the identifier is \<open>str\<close> of the serial number, name and state are the strings
  of the row, address and city are the strings of the row or the empty string where the
  row has none, latitude and longitude are what \<open>float\<close> makes of their cells. Where one
  of these is not to be had there is no record.
\<close>

fun text_only :: "cell \<Rightarrow> string option" where
  "text_only (StrCell s) = Some s"
| "text_only c = None"

fun text_or_empty :: "cell \<Rightarrow> string option" where
  "text_or_empty (StrCell s) = Some s"
| "text_or_empty (FloatCell NaN) = Some []"
| "text_or_empty c = None"

definition expected_bank :: "py \<Rightarrow> string list \<Rightarrow> cell list \<Rightarrow> BloodBank option" where
  "expected_bank P cols row =
     do {
       v_id \<leftarrow> row_str P cols row ''Sr No'';
       v_name \<leftarrow> Option.bind (row_get cols row ''Blood Bank Name'') text_only;
       v_address \<leftarrow> Option.bind (row_get cols row ''Address'') text_or_empty;
       v_city \<leftarrow> Option.bind (row_get cols row ''City'') text_or_empty;
       v_state \<leftarrow> Option.bind (row_get cols row ''State'') text_only;
       lat \<leftarrow> Option.bind (row_get cols row ''latitude'') (py_float P);
       lon \<leftarrow> Option.bind (row_get cols row ''longitude'') (py_float P);
       Some \<lparr>id' = v_id, name = v_name, address = v_address, city = v_city,
              state = v_state, latitude = lat, longitude = lon, distance = None\<rparr>
     }"

subsection \<open>sorted\<close>

text \<open>
  \<open><\<close> on floats is the only comparison \<open>sorted\<close> makes. The sort is stable; it is modelled
  as the insertion sort that takes the elements from left to right and puts each one
  behind the last element of the part already sorted that it is not less than, that is,
  in front of the longest tail of elements it is less than. This is the builtin in two
  cases. On keys that \<open><\<close> orders totally, that is, without NaN, every stable sort returns
  this list. A list in which no element is less than its predecessor comes back
  unchanged, NaN keys or not; so it does from CPython's sort, which starts by measuring
  the ascending run at the front of the list and finds that the run is the whole list.
  In the remaining case, a NaN key in a list with a descent, the order CPython returns
  depends on the comparisons its version happens to make, and the model's order is not
  the builtin's; what holds of both is that the result has the elements of the list.
\<close>

definition py_lt :: "pyfloat \<Rightarrow> pyfloat \<Rightarrow> bool" where
  "py_lt x y = (case (x, y) of (Fin a, Fin b) \<Rightarrow> a < b | _ \<Rightarrow> False)"

fun insert_by :: "('a \<Rightarrow> pyfloat) \<Rightarrow> 'a \<Rightarrow> 'a list \<Rightarrow> 'a list" where
  "insert_by key x [] = [x]"
| "insert_by key x (y # ys) =
     (if list_all (\<lambda>z. py_lt (key x) (key z)) (y # ys) then x # y # ys
      else y # insert_by key x ys)"

fun sort_into :: "('a \<Rightarrow> pyfloat) \<Rightarrow> 'a list \<Rightarrow> 'a list \<Rightarrow> 'a list" where
  "sort_into key acc [] = acc"
| "sort_into key acc (x # xs) = sort_into key (insert_by key x acc) xs"

definition py_sorted :: "('a \<Rightarrow> pyfloat) \<Rightarrow> 'a list \<Rightarrow> 'a list" where
  "py_sorted key xs = sort_into key [] xs"

text \<open>Both keys are numbers and the first is not above the second.\<close>

definition not_after :: "('a \<Rightarrow> pyfloat) \<Rightarrow> 'a \<Rightarrow> 'a \<Rightarrow> bool" where
  "not_after key a b = (\<exists>u v. key a = Fin u \<and> key b = Fin v \<and> u \<le> v)"

text \<open>
  \<open>sorted(banks, key=lambda x: x.distance)\<close>: with two or more banks every key is compared
  at least once, and comparing \<open>None\<close> raises TypeError.
\<close>

definition distance_key :: "BloodBank \<Rightarrow> pyfloat" where
  "distance_key x = (case distance x of Some d \<Rightarrow> d | None \<Rightarrow> NaN)"

definition sorted_by_distance :: "py \<Rightarrow> BloodBank list \<Rightarrow> exn + BloodBank list" where
  "sorted_by_distance P banks =
     (if 2 \<le> length banks \<and> None \<in> set (map distance banks)
      then Inl (TypeError (lt_type_error P))
      else Inr (py_sorted distance_key banks))"

subsection \<open>The handlers\<close>

text \<open>The loop of get_nearby: each bank gets its distance; a raise of haversine ends it.\<close>

fun set_distances :: "Location \<Rightarrow> BloodBank list \<Rightarrow> exn + BloodBank list" where
  "set_distances location [] = Inr []"
| "set_distances location (bank # rest) =
     (case haversine (Location.latitude location) (Location.longitude location)
             (BloodBank.latitude bank) (BloodBank.longitude bank) of
        Inl e \<Rightarrow> Inl e
      | Inr d \<Rightarrow>
         (case set_distances location rest of
            Inl e \<Rightarrow> Inl e
          | Inr rest' \<Rightarrow> Inr (bank\<lparr>distance := Some d\<rparr> # rest')))"

definition nearby_body :: "py \<Rightarrow> source \<Rightarrow> Location \<Rightarrow> exn + BloodBank list" where
  "nearby_body P src location =
     (case load_blood_banks P src of
        Inl e \<Rightarrow> Inl e
      | Inr banks \<Rightarrow>
         (case set_distances location banks of
            Inl e \<Rightarrow> Inl e
          | Inr ranked \<Rightarrow>
             (case sorted_by_distance P ranked of
                Inl e \<Rightarrow> Inl e
              | Inr s \<Rightarrow> Inr (take 10 s))))"

definition get_nearby :: "py \<Rightarrow> source \<Rightarrow> Location \<Rightarrow> exn + BloodBank list" where
  "get_nearby P src location =
     (case nearby_body P src location of
        Inl e \<Rightarrow> Inl (HTTPException 500 (exn_str e))
      | Inr result \<Rightarrow> Inr result)"

definition get_all_blood_banks :: "py \<Rightarrow> source \<Rightarrow> exn + BloodBank list" where
  "get_all_blood_banks P src =
     (case load_blood_banks P src of
        Inl e \<Rightarrow> Inl (HTTPException 500 (exn_str e))
      | Inr banks \<Rightarrow> Inr banks)"

subsection \<open>get_route\<close>

text \<open>
  The key is read from the environment when the module is loaded, with a default for a
  variable that is not set.
\<close>

definition GRAPHHOPPER_KEY :: "(string \<rightharpoonup> string) \<Rightarrow> string" where
  "GRAPHHOPPER_KEY env =
     (case env ''GRAPHHOPPER_API_KEY'' of
        Some v \<Rightarrow> v
      | None \<Rightarrow> ''9e9f9e52-ce51-4f10-b4e4-f3fd74b63123'')"

text \<open>
  An outbound call is a URL with its query parameters. The routing service is a function
  from the call to what \<open>requests.get\<close>, \<open>raise_for_status\<close> and \<open>json\<close> make of it: the
  decoded body, or the exception raised. The calls made are appended to a log that is
  passed in and handed back.
\<close>

record request =
  url :: string
  params :: "(string \<times> string list) list"

definition route_request :: "py \<Rightarrow> string \<Rightarrow> pyfloat \<Rightarrow> pyfloat \<Rightarrow> pyfloat \<Rightarrow> pyfloat \<Rightarrow> request" where
  "route_request P key start_lat start_lon end_lat end_lon =
     \<lparr>url = ''https://graphhopper.com/api/1/route'',
      params = [(''point'', [float_str P start_lat @ '','' @ float_str P start_lon,
                            float_str P end_lat @ '','' @ float_str P end_lon]),
                (''vehicle'', [''car'']),
                (''key'', [key]),
                (''points_encoded'', [''false''])]\<rparr>"

definition route_body ::
  "py \<Rightarrow> (string \<rightharpoonup> string) \<Rightarrow> (request \<Rightarrow> exn + 'j) \<Rightarrow>
   pyfloat \<Rightarrow> pyfloat \<Rightarrow> pyfloat \<Rightarrow> pyfloat \<Rightarrow> request list \<Rightarrow> (exn + 'j) \<times> request list" where
  "route_body P env service start_lat start_lon end_lat end_lon calls =
     (if GRAPHHOPPER_KEY env = []
      then (Inl (HTTPException 500 ''Graphhopper API key not configured''), calls)
      else
        (let req = route_request P (GRAPHHOPPER_KEY env) start_lat start_lon end_lat end_lon
         in (service req, calls @ [req])))"

definition get_route ::
  "py \<Rightarrow> (string \<rightharpoonup> string) \<Rightarrow> (request \<Rightarrow> exn + 'j) \<Rightarrow>
   pyfloat \<Rightarrow> pyfloat \<Rightarrow> pyfloat \<Rightarrow> pyfloat \<Rightarrow> request list \<Rightarrow> (exn + 'j) \<times> request list" where
  "get_route P env service start_lat start_lon end_lat end_lon calls =
     (case route_body P env service start_lat start_lon end_lat end_lon calls of
        (Inl (RequestException m), calls') \<Rightarrow>
          (Inl (HTTPException 500 (''Routing API error: '' @ m)), calls')
      | (Inl e, calls') \<Rightarrow> (Inl (HTTPException 500 (exn_str e)), calls')
      | (Inr body, calls') \<Rightarrow> (Inr body, calls'))"

subsection \<open>A small table\<close>

text \<open>
  Four rows under labels with stray blanks. The second row has no latitude and no address,
  the fourth no name. The first bank is half way round the equator from the origin, the
  third at the origin.
\<close>

definition ex_py :: py where
  "ex_py = \<lparr>float_of_str = (\<lambda>s. None), str_of_float = (\<lambda>x. ''0.0''),
            series_str = (\<lambda>cs. []), lt_type_error = [], pydantic = V2\<rparr>"


definition ex_frame :: frame where
  "ex_frame =
     \<lparr>columns = [''Sr No '', ''Blood Bank Name'', ''Address'', '' City'', ''State'',
                 '' latitude'', ''longitude''],
      rows = [[IntCell 1, StrCell ''A'', StrCell ''1 Main St'', StrCell ''P'', StrCell ''S'',
                 FloatCell (Fin 0), IntCell 180],
              [IntCell 2, StrCell ''B'', FloatCell NaN, StrCell ''Q'', StrCell ''S'',
                 FloatCell NaN, IntCell 0],
              [IntCell 3, StrCell ''C'', StrCell ''3 High St'', StrCell ''R'', StrCell ''S'',
                 FloatCell (Fin 0), IntCell 0],
              [IntCell 4, FloatCell NaN, StrCell ''4 Low St'', StrCell ''T'', StrCell ''S'',
                 FloatCell (Fin 0), IntCell 0]]\<rparr>"

definition ex_origin :: Location where
  "ex_origin = \<lparr>Location.latitude = Fin 0, Location.longitude = Fin 0\<rparr>"

definition ex_bank :: "string \<Rightarrow> string \<Rightarrow> string \<Rightarrow> string \<Rightarrow> pyfloat \<Rightarrow> pyfloat \<Rightarrow> BloodBank" where
  "ex_bank i n a c la lo =
     \<lparr>id' = i, name = n, address = a, city = c, state = ''S'', latitude = la, longitude = lo,
      distance = None\<rparr>"

definition ex_banks :: "BloodBank list" where
  "ex_banks =
     [ex_bank ''1'' ''A'' ''1 Main St'' ''P'' (Fin 0) (Fin 180),
      ex_bank ''2'' ''B'' [] ''Q'' NaN (Fin 0),
      ex_bank ''3'' ''C'' ''3 High St'' ''R'' (Fin 0) (Fin 0)]"

text \<open>The three banks with their distances from the origin, in the order of the table.\<close>

definition ex_ranked :: "BloodBank list" where
  "ex_ranked =
     [(ex_bank ''1'' ''A'' ''1 Main St'' ''P'' (Fin 0) (Fin 180))\<lparr>distance := Some (Fin (6371 * pi))\<rparr>,
      (ex_bank ''2'' ''B'' [] ''Q'' NaN (Fin 0))\<lparr>distance := Some NaN\<rparr>,
      (ex_bank ''3'' ''C'' ''3 High St'' ''R'' (Fin 0) (Fin 0))\<lparr>distance := Some (Fin 0)\<rparr>]"

text \<open>A table without the address and latitude columns.\<close>

definition ex_short :: frame where
  "ex_short =
     \<lparr>columns = [''Sr No '', ''Blood Bank Name'', '' City'', ''State'', ''longitude''],
      rows = [[IntCell 1, StrCell ''A'', StrCell ''P'', StrCell ''S'', IntCell 180]]\<rparr>"

text \<open>A table with no blank: the far bank first, the near bank second.\<close>

definition ex_clean :: frame where
  "ex_clean =
     \<lparr>columns = [''Sr No'', ''Blood Bank Name'', ''Address'', ''City'', ''State'',
                 ''latitude'', ''longitude''],
      rows = [[IntCell 1, StrCell ''A'', StrCell ''1 Main St'', StrCell ''P'', StrCell ''S'',
                 IntCell 0, IntCell 180],
              [IntCell 3, StrCell ''C'', StrCell ''3 High St'', StrCell ''R'', StrCell ''S'',
                 IntCell 0, IntCell 0]]\<rparr>"

definition ex_far :: BloodBank where
  "ex_far = ex_bank ''1'' ''A'' ''1 Main St'' ''P'' (Fin 0) (Fin 180)"

definition ex_near :: BloodBank where
  "ex_near = ex_bank ''3'' ''C'' ''3 High St'' ''R'' (Fin 0) (Fin 0)"

text \<open>
  A table whose second serial number is blank: pandas reads the column as floats.
\<close>

definition ex_serial :: frame where
  "ex_serial =
     \<lparr>columns = [''Sr No'', ''Blood Bank Name'', ''Address'', ''City'', ''State'',
                 ''latitude'', ''longitude''],
      rows = [[FloatCell (Fin 1), StrCell ''A'', StrCell ''1 Main St'', StrCell ''P'', StrCell ''S'',
                 IntCell 0, IntCell 180],
              [FloatCell NaN, StrCell ''B'', StrCell ''2 Side St'', StrCell ''Q'', StrCell ''S'',
                 IntCell 0, IntCell 90],
              [FloatCell (Fin 3), StrCell ''C'', StrCell ''3 High St'', StrCell ''R'', StrCell ''S'',
                 IntCell 0, IntCell 0]]\<rparr>"


subsection \<open>The distance formula\<close>

lemma cos_prod_half: "cos x * cos y = (cos ((x + y) / 2))\<^sup>2 - (sin ((y - x) / 2))\<^sup>2" for x y :: real
proof -
  define u where "u = (x + y) / 2"
  define v where "v = (y - x) / 2"
  have x: "x = u - v" and y: "y = u + v" by (simp_all add: u_def v_def field_simps)
  have cv: "(cos v)\<^sup>2 = 1 - (sin v)\<^sup>2" by (rule cos_squared_eq)
  have su: "(sin u)\<^sup>2 = 1 - (cos u)\<^sup>2" by (rule sin_squared_eq)
  have "cos (u - v) * cos (u + v)
          = (cos u * cos v + sin u * sin v) * (cos u * cos v - sin u * sin v)"
    by (simp only: cos_add cos_diff)
  also have "\<dots> = (cos u)\<^sup>2 * (cos v)\<^sup>2 - (sin u)\<^sup>2 * (sin v)\<^sup>2"
    by (simp add: power2_eq_square algebra_simps)
  also have "\<dots> = (cos u)\<^sup>2 * (1 - (sin v)\<^sup>2) - (1 - (cos u)\<^sup>2) * (sin v)\<^sup>2"
    by (simp only: cv su)
  also have "\<dots> = (cos u)\<^sup>2 - (sin v)\<^sup>2" by (simp add: algebra_simps)
  finally have "cos (u - v) * cos (u + v) = (cos u)\<^sup>2 - (sin v)\<^sup>2" .
  then have "cos x * cos y = (cos u)\<^sup>2 - (sin v)\<^sup>2" using x y by simp
  then show ?thesis by (simp only: u_def v_def)
qed

lemma hav_convex:
  fixes x y s :: real
  assumes "0 \<le> s" "s \<le> 1"
  shows "0 \<le> (sin ((y - x) / 2))\<^sup>2 + cos x * cos y * s"
    and "(sin ((y - x) / 2))\<^sup>2 + cos x * cos y * s \<le> 1"
proof -
  define p where "p = (sin ((y - x) / 2))\<^sup>2"
  define q where "q = (cos ((x + y) / 2))\<^sup>2"
  have p: "0 \<le> p" "p \<le> 1" by (simp_all add: p_def abs_square_le_1)
  have q: "0 \<le> q" "q \<le> 1" by (simp_all add: q_def abs_square_le_1)
  have e: "(sin ((y - x) / 2))\<^sup>2 + cos x * cos y * s = (1 - s) * p + s * q"
    by (simp add: cos_prod_half p_def q_def algebra_simps)
  have "0 \<le> (1 - s) * p" "0 \<le> s * q" using assms p q by simp_all
  then show "0 \<le> (sin ((y - x) / 2))\<^sup>2 + cos x * cos y * s" unfolding e by linarith
  have "(1 - s) * p \<le> 1 - s" using assms p by (simp add: mult_left_le)
  moreover have "s * q \<le> s" using assms q by (simp add: mult_left_le)
  ultimately show "(sin ((y - x) / 2))\<^sup>2 + cos x * cos y * s \<le> 1" unfolding e by linarith
qed

lemma haversine_a_bounds:
  "0 \<le> haversine_a lat1 lon1 lat2 lon2" "haversine_a lat1 lon1 lat2 lon2 \<le> 1"
  using hav_convex [of "(sin ((lon2 * pi / 180 - lon1 * pi / 180) / 2))\<^sup>2"
      "lat2 * pi / 180" "lat1 * pi / 180"]
  by (simp_all add: haversine_a_def Let_def abs_square_le_1)

lemma haversine_Fin:
  "haversine (Fin lat1) (Fin lon1) (Fin lat2) (Fin lon2)
     = Inr (Fin (haversine_spec lat1 lon1 lat2 lon2))"
proof -
  have a: "py_add (py_square (math_sin (py_half (radians (py_sub (Fin lat2) (Fin lat1))))))
             (py_mul (py_mul (math_cos (radians (Fin lat1))) (math_cos (radians (Fin lat2))))
                (py_square (math_sin (py_half (radians (py_sub (Fin lon2) (Fin lon1)))))))
           = Fin (haversine_a lat1 lon1 lat2 lon2)"
    by (simp add: py_add_def py_sub_def py_mul_def py_half_def py_square_def radians_def
        math_sin_def math_cos_def haversine_a_def Let_def algebra_simps diff_divide_distrib)
  have b: "\<not> haversine_a lat1 lon1 lat2 lon2 < 0" "\<not> 1 < haversine_a lat1 lon1 lat2 lon2"
    using haversine_a_bounds [of lat1 lon1 lat2 lon2] by simp_all
  show ?thesis
    unfolding haversine_def Let_def a
    by (simp add: math_sqrt_def py_sub_def py_mul_def math_atan2_def haversine_spec_def b
        del: not_less)
qed

lemma haversine_a_same: "haversine_a lat lon lat lon = 0"
  by (simp add: haversine_a_def)

lemma haversine_a_sym: "haversine_a a1 a2 b1 b2 = haversine_a b1 b2 a1 a2"
proof -
  have "sin ((x - y) / 2) ^ 2 = sin ((y - x) / 2) ^ 2" for x y :: real
  proof -
    have "(x - y) / 2 = - ((y - x) / 2)" by argo
    then show ?thesis by (metis sin_minus power2_minus)
  qed
  then show ?thesis by (simp add: haversine_a_def Let_def mult.commute)
qed

lemma haversine_NaN:
  assumes "lat1 = NaN \<or> lon1 = NaN \<or> lat2 = NaN \<or> lon2 = NaN"
  shows "haversine lat1 lon1 lat2 lon2 = Inr NaN"
  using assms
  by (cases lat1; cases lon1; cases lat2; cases lon2)
     (simp_all add: haversine_def Let_def py_add_def py_sub_def py_mul_def py_half_def
        py_square_def radians_def math_sin_def math_cos_def math_sqrt_def math_atan2_def)



subsection \<open>The loader\<close>

lemma collect_banks_append:
  "collect_banks P dt cols rs acc
     = acc @ List.map_filter (\<lambda>row. make_bank P dt cols (map (widen dt) row)) rs"
  by (induction rs arbitrary: acc) (simp_all add: List.map_filter_simps split: option.splits)

lemma map_filter_comp: "List.map_filter f (map g xs) = List.map_filter (\<lambda>x. f (g x)) xs"
  by (induction xs) (simp_all add: List.map_filter_simps split: option.splits)

lemma map_filter_as_filter:
  "List.map_filter f xs = map (\<lambda>x. the (f x)) (filter (\<lambda>x. f x \<noteq> None) xs)"
  by (induction xs) (auto simp add: List.map_filter_simps split: option.splits)

lemma load_body_Parsed:
  "load_body P (Parsed df0) =
     (let df = df0\<lparr>columns := map str_strip (columns df0)\<rparr> in
      if missing_cols df \<noteq> []
      then Inl (ValueError (''CSV missing required columns: '' @ join '', '' (missing_cols df)))
      else Inr (List.map_filter (row_bank P df0) (rows df0)))"
proof -
  have r: "row_bank P df0 = (\<lambda>row.
     make_bank P (frame_dtype (filled_rows df0)) (map str_strip (columns df0))
       (map (widen (frame_dtype (filled_rows df0)))
          (fill_row ''City'' (map str_strip (columns df0))
             (fill_row ''Address'' (map str_strip (columns df0)) row))))"
    by (rule ext) (simp add: row_bank_def)
  have f: "map (fill_row ''City'' (map str_strip (columns df0)))
             (map (fill_row ''Address'' (map str_strip (columns df0))) (rows df0))
           = filled_rows df0"
    by (simp add: filled_rows_def)
  show ?thesis
    by (simp add: load_body_def Let_def fillna_def collect_banks_append f r map_filter_comp)
       (simp add: filled_rows_def comp_def)
qed

lemma missing_cols_stripped:
  "missing_cols (df0\<lparr>columns := map str_strip (columns df0)\<rparr>)
     = filter (\<lambda>col. col \<notin> set (map str_strip (columns df0))) col_mapping_values"
  by (simp add: missing_cols_def)

lemma missing_cols_empty_iff:
  "missing_cols (df0\<lparr>columns := map str_strip (columns df0)\<rparr>) = []
     \<longleftrightarrow> set col_mapping_values \<subseteq> set (map str_strip (columns df0))"
  by (auto simp add: missing_cols_stripped filter_empty_conv)

lemma load_blood_banks_present:
  assumes "set col_mapping_values \<subseteq> set (map str_strip (columns df0))"
  shows "load_blood_banks P (Parsed df0) = Inr (List.map_filter (row_bank P df0) (rows df0))"
  using assms missing_cols_empty_iff [of df0]
  by (simp add: load_blood_banks_def load_body_Parsed Let_def)

lemma load_blood_banks_absent:
  assumes "\<not> set col_mapping_values \<subseteq> set (map str_strip (columns df0))"
  shows "load_blood_banks P (Parsed df0) =
           Inl (HTTPException 500 (''CSV Error: '' @ ''CSV missing required columns: ''
                  @ join '', '' (filter (\<lambda>col. col \<notin> set (map str_strip (columns df0)))
                                   col_mapping_values)))"
  using assms missing_cols_empty_iff [of df0]
  by (simp add: load_blood_banks_def load_body_Parsed Let_def missing_cols_stripped)

lemma load_blood_banks_Inr:
  assumes "load_blood_banks P (Parsed df0) = Inr banks"
  shows "set col_mapping_values \<subseteq> set (map str_strip (columns df0))"
    and "banks = List.map_filter (row_bank P df0) (rows df0)"
proof -
  show p: "set col_mapping_values \<subseteq> set (map str_strip (columns df0))"
  proof (rule ccontr)
    assume "\<not> ?thesis"
    from load_blood_banks_absent [OF this, of P] assms show False by simp
  qed
  from load_blood_banks_present [OF p, of P] assms
  show "banks = List.map_filter (row_bank P df0) (rows df0)" by simp
qed

lemma make_bank_distance:
  assumes "make_bank P dt cols row = Some b"
  shows "distance b = None"
  using assms by (auto simp add: make_bank_def bind_eq_Some_conv)

lemma row_bank_distance:
  assumes "row_bank P df0 row = Some b"
  shows "distance b = None"
  using assms by (simp add: row_bank_def make_bank_distance)

text \<open>Cells under a label, after \<open>fillna\<close> and after widening.\<close>

lemma row_cells_fill_row:
  "row_cells cols (fill_row label cols row) k
     = map (\<lambda>c. fill_cell label (k, c)) (row_cells cols row k)"
  unfolding row_cells_def fill_row_def
proof (induction cols arbitrary: row)
  case Nil
  then show ?case by simp
next
  case (Cons c cs)
  then show ?case by (cases row) simp_all
qed

lemma row_cells_map:
  "row_cells cols (map f row) k = map f (row_cells cols row k)"
  unfolding row_cells_def
proof (induction cols arbitrary: row)
  case Nil
  then show ?case by simp
next
  case (Cons c cs)
  then show ?case by (cases row) simp_all
qed

lemma row_cells_subset: "set (row_cells cols row k) \<subseteq> set row"
  unfolding row_cells_def
proof (induction cols arbitrary: row)
  case Nil
  then show ?case by simp
next
  case (Cons c cs)
  then show ?case by (cases row) auto
qed

lemma row_get_in_row:
  assumes "row_get cols row k = Some c"
  shows "c \<in> set row"
proof -
  from assms have "row_cells cols row k = [c]"
    by (auto simp add: row_get_def split: list.splits)
  then have "c \<in> set (row_cells cols row k)" by simp
  with row_cells_subset show ?thesis by blast
qed

lemma row_cells_filled:
  "row_cells cols (fill_row ''City'' cols (fill_row ''Address'' cols row)) k
     = map (refill k) (row_cells cols row k)"
  by (auto simp add: row_cells_fill_row fill_cell_def refill_def)

lemma row_get_map:
  "row_get cols (map f row) k = map_option f (row_get cols row k)"
  by (simp add: row_get_def row_cells_map split: list.splits)

lemma row_get_filled:
  "row_get cols (fill_row ''City'' cols (fill_row ''Address'' cols row)) k
     = map_option (refill k) (row_get cols row k)"
  by (simp add: row_get_def row_cells_filled split: list.splits)

lemma row_str_filled:
  "row_str P cols (fill_row ''City'' cols (fill_row ''Address'' cols row)) ''Sr No''
     = row_str P cols row ''Sr No''"
proof -
  have "map (refill ''Sr No'') cs = cs" for cs
    by (induction cs) (simp_all add: refill_def)
  then show ?thesis by (simp add: row_str_def row_cells_filled)
qed


text \<open>With pydantic 2 the loader builds the record the data model asks for.\<close>

lemma validate_str_V2:
  assumes "pydantic P = V2"
  shows "validate_str P dt c = text_only c"
  using assms by (cases c) (simp_all add: validate_str_def)

lemma validate_refill_V2:
  assumes "pydantic P = V2" "k = ''Address'' \<or> k = ''City''"
  shows "validate_str P dt (refill k c) = text_or_empty c"
proof (cases c)
  case (FloatCell x)
  with assms show ?thesis by (cases x) (auto simp add: validate_str_def refill_def)
qed (use assms in \<open>auto simp add: validate_str_def refill_def\<close>)

lemma text_only_refill:
  assumes "k = ''Address'' \<or> k = ''City''"
  shows "text_only (refill k c) = text_or_empty c"
proof (cases c)
  case (FloatCell x)
  with assms show ?thesis by (cases x) (auto simp add: refill_def)
qed (use assms in \<open>auto simp add: refill_def\<close>)

lemma not_object_no_str:
  assumes "frame_dtype rs \<noteq> Object" "row \<in> set rs" "c \<in> set row"
  shows "\<not> is_str c"
proof
  assume "is_str c"
  with assms(2,3) have "list_ex is_str (concat rs)" by (auto simp add: list_ex_iff)
  with assms(1) show False by (simp add: frame_dtype_def)
qed

lemma widen_is_str: "is_str (widen dt c) \<longleftrightarrow> is_str c"
  by (cases dt; cases c) simp_all

lemma make_bank_object_V2:
  assumes "pydantic P = V2"
  shows "make_bank P dt cols (fill_row ''City'' cols (fill_row ''Address'' cols row))
           = expected_bank P cols row"
proof -
  have n: "refill ''Blood Bank Name'' = (\<lambda>c. c)" "refill ''State'' = (\<lambda>c. c)"
          "refill ''latitude'' = (\<lambda>c. c)" "refill ''longitude'' = (\<lambda>c. c)"
    by (rule ext, simp add: refill_def)+
  show ?thesis
    unfolding make_bank_def expected_bank_def col_mapping.simps row_get_filled row_str_filled n
    by (cases "row_get cols row ''Blood Bank Name''"; cases "row_get cols row ''Address''";
        cases "row_get cols row ''City''"; cases "row_get cols row ''State''";
        cases "row_get cols row ''latitude''"; cases "row_get cols row ''longitude''")
       (auto simp add: validate_str_V2 [OF assms] text_only_refill
          option.map_id0 split: Option.bind_splits)
qed


lemma make_bank_V2_name:
  assumes "pydantic P = V2" "make_bank P dt cols r = Some b"
  shows "\<exists>c. row_get cols r ''Blood Bank Name'' = Some c \<and> is_str c"
proof -
  from assms(2) obtain c where c: "row_get cols r ''Blood Bank Name'' = Some c"
      and "validate_str P dt c \<noteq> None"
    by (auto simp add: make_bank_def bind_eq_Some_conv)
  then have "is_str c" using assms(1) by (cases c) (simp_all add: validate_str_def)
  with c show ?thesis by blast
qed

lemma make_bank_V2_no_str:
  assumes "pydantic P = V2" "\<forall>c \<in> set r. \<not> is_str c"
  shows "make_bank P dt cols r = None"
proof (cases "make_bank P dt cols r")
  case None
  then show ?thesis .
next
  case (Some b)
  from make_bank_V2_name [OF assms(1) Some] obtain c
    where "row_get cols r ''Blood Bank Name'' = Some c" "is_str c" by blast
  with row_get_in_row assms(2) show ?thesis by blast
qed

lemma row_bank_V2:
  assumes "pydantic P = V2" "row \<in> set (rows df0)"
  shows "row_bank P df0 row = expected_bank P (map str_strip (columns df0)) row"
proof -
  define cols where "cols = map str_strip (columns df0)"
  define frow where "frow = fill_row ''City'' cols (fill_row ''Address'' cols row)"
  define dt where "dt = frame_dtype (filled_rows df0)"
  have in_filled: "frow \<in> set (filled_rows df0)"
    using assms(2) by (auto simp add: filled_rows_def frow_def cols_def)
  have e: "make_bank P dt cols frow = expected_bank P cols row"
    unfolding frow_def by (rule make_bank_object_V2 [OF assms(1)])
  have "make_bank P dt cols (map (widen dt) frow) = make_bank P dt cols frow"
  proof (cases "dt = Float64")
    case False
    then have "map (widen dt) frow = frow"
      by (intro map_idI) (cases dt; simp)
    then show ?thesis by simp
  next
    case True
    then have "dt \<noteq> Object" by simp
    then have n: "\<forall>c \<in> set frow. \<not> is_str c"
      using not_object_no_str in_filled unfolding dt_def by blast
    then have "\<forall>c \<in> set (map (widen dt) frow). \<not> is_str c"
      by (auto simp add: widen_is_str)
    with n show ?thesis
      by (simp add: make_bank_V2_no_str [OF assms(1)])
  qed
  with e show ?thesis
    by (simp add: row_bank_def cols_def frow_def dt_def)
qed

lemma map_filter_cong_set:
  assumes "\<And>x. x \<in> set xs \<Longrightarrow> f x = g x"
  shows "List.map_filter f xs = List.map_filter g xs"
  using assms by (induction xs) (simp_all add: List.map_filter_simps split: option.splits)

lemma load_blood_banks_V2:
  assumes "pydantic P = V2"
    and "set col_mapping_values \<subseteq> set (map str_strip (columns df0))"
  shows "load_blood_banks P (Parsed df0)
           = Inr (List.map_filter (expected_bank P (map str_strip (columns df0))) (rows df0))"
  using load_blood_banks_present [OF assms(2), of P]
    map_filter_cong_set [of "rows df0" "row_bank P df0"
      "expected_bank P (map str_strip (columns df0))"] row_bank_V2 [OF assms(1)]
  by simp

lemma loaded_distance_None:
  assumes "load_blood_banks P src = Inr banks" "b \<in> set banks"
  shows "distance b = None"
proof (cases src)
  case NotFound
  with assms show ?thesis by (simp add: load_blood_banks_def load_body_def)
next
  case (Unreadable m)
  with assms show ?thesis by (simp add: load_blood_banks_def load_body_def)
next
  case (Parsed df0)
  with assms(1) have "banks = List.map_filter (row_bank P df0) (rows df0)"
    using load_blood_banks_Inr(2) by blast
  with assms(2) obtain row where "row_bank P df0 row = Some b"
    by (auto simp add: map_filter_as_filter)
  then show ?thesis by (rule row_bank_distance)
qed

subsection \<open>The sort\<close>

lemma py_lt_irrefl: "\<not> py_lt x x"
  by (cases x) (simp_all add: py_lt_def)

lemma insert_by_front:
  assumes "list_all (\<lambda>z. py_lt (key x) (key z)) (y # ys)"
  shows "insert_by key x (y # ys) = x # y # ys"
  using assms by (simp only: insert_by.simps if_True)

lemma insert_by_later:
  assumes "\<not> list_all (\<lambda>z. py_lt (key x) (key z)) (y # ys)"
  shows "insert_by key x (y # ys) = y # insert_by key x ys"
  using assms by (simp only: insert_by.simps if_False)

lemma mset_insert_by: "mset (insert_by key x ys) = add_mset x (mset ys)"
  by (induction ys) simp_all

lemma mset_sort_into: "mset (sort_into key acc xs) = mset acc + mset xs"
  by (induction xs arbitrary: acc) (simp_all add: mset_insert_by)

lemma mset_py_sorted: "mset (py_sorted key xs) = mset xs"
  by (simp add: py_sorted_def mset_sort_into)

lemma length_py_sorted: "length (py_sorted key xs) = length xs"
  using mset_py_sorted [of key xs] by (metis size_mset)

lemma filter_insert_by:
  "filter (\<lambda>y. key y = c) (insert_by key x ys)
     = filter (\<lambda>y. key y = c) ys @ (if key x = c then [x] else [])"
proof (induction ys)
  case Nil
  then show ?case by simp
next
  case (Cons y ys)
  show ?case
  proof (cases "list_all (\<lambda>z. py_lt (key x) (key z)) (y # ys)")
    case True
    then have "\<forall>z \<in> set (y # ys). key z \<noteq> key x"
      using py_lt_irrefl by (metis list_all_iff)
    then have "key x = c \<Longrightarrow> filter (\<lambda>y. key y = c) (y # ys) = []"
      by (auto simp add: filter_empty_conv)
    then show ?thesis
      unfolding insert_by_front [OF True] by (cases "key x = c") simp_all
  next
    case False
    show ?thesis
      unfolding insert_by_later [OF False] using Cons by simp
  qed
qed

lemma filter_sort_into:
  "filter (\<lambda>y. key y = c) (sort_into key acc xs)
     = filter (\<lambda>y. key y = c) acc @ filter (\<lambda>y. key y = c) xs"
  by (induction xs arbitrary: acc) (simp_all add: filter_insert_by)

lemma py_sorted_stable:
  "filter (\<lambda>y. key y = c) (py_sorted key xs) = filter (\<lambda>y. key y = c) xs"
  by (simp add: py_sorted_def filter_sort_into)

lemma sorted_insert_by:
  assumes "sorted_wrt (not_after key) ys" "key x \<noteq> NaN" "\<forall>y \<in> set ys. key y \<noteq> NaN"
  shows "sorted_wrt (not_after key) (insert_by key x ys)"
  using assms
proof (induction ys)
  case Nil
  then show ?case by simp
next
  case (Cons y ys)
  obtain u where u: "key x = Fin u" using Cons.prems(2) by (cases "key x") simp_all
  show ?case
  proof (cases "list_all (\<lambda>z. py_lt (key x) (key z)) (y # ys)")
    case True
    have "not_after key x z" if "z \<in> set (y # ys)" for z
    proof -
      from True that have l: "py_lt (key x) (key z)" by (simp only: list_all_iff)
      then obtain v where "key z = Fin v" by (cases "key z") (simp_all add: py_lt_def u)
      with l show ?thesis by (simp add: not_after_def py_lt_def u)
    qed
    then show ?thesis
      unfolding insert_by_front [OF True] using Cons.prems(1) by simp
  next
    case False
    then obtain z where z: "z \<in> set (y # ys)" "\<not> py_lt (key x) (key z)"
      by (simp only: list_all_iff) blast
    obtain w where w: "key z = Fin w" using Cons.prems(3) z(1) by (cases "key z") auto
    obtain v where v: "key y = Fin v" using Cons.prems(3) by (cases "key y") auto
    have "w \<le> u" using z(2) by (simp add: py_lt_def u w)
    moreover have "v \<le> w"
    proof (cases "z = y")
      case True then show ?thesis using v w by simp
    next
      case False
      then have "not_after key y z" using z(1) Cons.prems(1) by auto
      then show ?thesis by (simp add: not_after_def v w)
    qed
    ultimately have yx: "not_after key y x" by (simp add: not_after_def u v)
    have "sorted_wrt (not_after key) (insert_by key x ys)"
      using Cons by simp
    moreover have "\<forall>t \<in> set (insert_by key x ys). not_after key y t"
    proof
      fix t assume "t \<in> set (insert_by key x ys)"
      then have "t \<in># mset (insert_by key x ys)" by simp
      then have "t = x \<or> t \<in> set ys" by (simp add: mset_insert_by)
      then show "not_after key y t" using yx Cons.prems(1) by auto
    qed
    ultimately show ?thesis
      unfolding insert_by_later [OF False] by simp
  qed
qed

lemma sorted_sort_into:
  assumes "sorted_wrt (not_after key) acc" "\<forall>y \<in> set acc. key y \<noteq> NaN" "\<forall>y \<in> set xs. key y \<noteq> NaN"
  shows "sorted_wrt (not_after key) (sort_into key acc xs)"
  using assms
proof (induction xs arbitrary: acc)
  case Nil
  then show ?case by simp
next
  case (Cons x xs)
  have s: "sorted_wrt (not_after key) (insert_by key x acc)"
    using Cons.prems by (intro sorted_insert_by) simp_all
  have "set (insert_by key x acc) = insert x (set acc)"
    using mset_insert_by [of key x acc] by (metis set_mset_add_mset_insert set_mset_mset)
  then have "\<forall>y \<in> set (insert_by key x acc). key y \<noteq> NaN" using Cons.prems by simp
  with s Cons show ?case by simp
qed

lemma sorted_py_sorted:
  assumes "\<forall>y \<in> set xs. key y \<noteq> NaN"
  shows "sorted_wrt (not_after key) (py_sorted key xs)"
  using sorted_sort_into [of key "[]" xs] assms by (simp add: py_sorted_def)

text \<open>A list with no descent between neighbours is left as it is.\<close>

lemma insert_by_no_descent:
  assumes "acc \<noteq> []" "\<not> py_lt (key x) (key (last acc))"
  shows "insert_by key x acc = acc @ [x]"
  using assms
proof (induction acc)
  case Nil
  then show ?case by simp
next
  case (Cons y ys)
  have "last (y # ys) \<in> set (y # ys)" by (rule last_in_set) simp
  with Cons.prems(2) have n: "\<not> list_all (\<lambda>z. py_lt (key x) (key z)) (y # ys)"
    by (simp only: list_all_iff) blast
  show ?case
  proof (cases "ys = []")
    case True
    then show ?thesis unfolding insert_by_later [OF n] by simp
  next
    case False
    with Cons.prems(2) have "\<not> py_lt (key x) (key (last ys))" by simp
    with False Cons.IH have "insert_by key x ys = ys @ [x]" by simp
    then show ?thesis unfolding insert_by_later [OF n] by simp
  qed
qed

lemma sort_into_no_descent:
  assumes "successively (\<lambda>a b. \<not> py_lt (key b) (key a)) (acc @ xs)"
  shows "sort_into key acc xs = acc @ xs"
  using assms
proof (induction xs arbitrary: acc)
  case Nil
  then show ?case by simp
next
  case (Cons x xs)
  have "insert_by key x acc = acc @ [x]"
  proof (cases "acc = []")
    case True then show ?thesis by simp
  next
    case False
    with Cons.prems have "\<not> py_lt (key x) (key (last acc))"
      by (simp add: successively_append_iff)
    with False show ?thesis by (rule insert_by_no_descent)
  qed
  with Cons show ?case by simp
qed

lemma py_sorted_no_descent:
  assumes "successively (\<lambda>a b. \<not> py_lt (key b) (key a)) xs"
  shows "py_sorted key xs = xs"
  using sort_into_no_descent [of key "[]" xs] assms by (simp add: py_sorted_def)

subsection \<open>Ranking\<close>

lemma haversine_total: "\<exists>d. haversine lat1 lon1 lat2 lon2 = Inr d"
proof (cases "lat1 = NaN \<or> lon1 = NaN \<or> lat2 = NaN \<or> lon2 = NaN")
  case True
  then show ?thesis by (simp add: haversine_NaN)
next
  case False
  then obtain a b c d where "lat1 = Fin a" "lon1 = Fin b" "lat2 = Fin c" "lon2 = Fin d"
    by (cases lat1; cases lon1; cases lat2; cases lon2) simp_all
  then show ?thesis by (simp add: haversine_Fin)
qed

lemma set_distances_total:
  "\<exists>ranked. set_distances location banks = Inr ranked
     \<and> length ranked = length banks
     \<and> map (\<lambda>b. b\<lparr>distance := None\<rparr>) ranked = map (\<lambda>b. b\<lparr>distance := None\<rparr>) banks
     \<and> (\<forall>r \<in> set ranked. \<exists>d.
           haversine (Location.latitude location) (Location.longitude location)
             (BloodBank.latitude r) (BloodBank.longitude r) = Inr d \<and> distance r = Some d)"
proof (induction banks)
  case Nil
  then show ?case by simp
next
  case (Cons bank rest)
  then obtain rest' where r: "set_distances location rest = Inr rest'"
      "length rest' = length rest"
      "map (\<lambda>b. b\<lparr>distance := None\<rparr>) rest' = map (\<lambda>b. b\<lparr>distance := None\<rparr>) rest"
      "\<forall>r \<in> set rest'. \<exists>d.
           haversine (Location.latitude location) (Location.longitude location)
             (BloodBank.latitude r) (BloodBank.longitude r) = Inr d \<and> distance r = Some d"
    by blast
  obtain d where d: "haversine (Location.latitude location) (Location.longitude location)
             (BloodBank.latitude bank) (BloodBank.longitude bank) = Inr d"
    using haversine_total by blast
  have "set_distances location (bank # rest) = Inr (bank\<lparr>distance := Some d\<rparr> # rest')"
    by (simp add: d r(1))
  with r d show ?case by simp
qed

lemma sorted_by_distance_ranked:
  assumes "\<forall>r \<in> set ranked. \<exists>d. distance r = Some d"
  shows "sorted_by_distance P ranked = Inr (py_sorted distance_key ranked)"
proof -
  have "None \<notin> set (map distance ranked)" using assms by force
  then show ?thesis by (simp add: sorted_by_distance_def)
qed

lemma get_nearby_after_load:
  assumes "load_blood_banks P src = Inr banks"
  shows "\<exists>ranked. set_distances location banks = Inr ranked
           \<and> get_nearby P src location = Inr (take 10 (py_sorted distance_key ranked))"
proof -
  from set_distances_total [of location banks] obtain ranked where
    r: "set_distances location banks = Inr ranked"
       "\<forall>r \<in> set ranked. \<exists>d.
           haversine (Location.latitude location) (Location.longitude location)
             (BloodBank.latitude r) (BloodBank.longitude r) = Inr d \<and> distance r = Some d"
    by blast
  then have "\<forall>r \<in> set ranked. \<exists>d. distance r = Some d" by blast
  from sorted_by_distance_ranked [OF this, of P]
  have "get_nearby P src location = Inr (take 10 (py_sorted distance_key ranked))"
    by (simp add: get_nearby_def nearby_body_def assms r(1))
  with r(1) show ?thesis by blast
qed

lemma get_nearby_Inr:
  assumes "get_nearby P src location = Inr result"
  shows "\<exists>banks. load_blood_banks P src = Inr banks"
  using assms
  by (cases "load_blood_banks P src") (simp_all add: get_nearby_def nearby_body_def)

lemma ranked_numbers:
  assumes "set_distances location banks = Inr ranked"
    and "Location.latitude location \<noteq> NaN" "Location.longitude location \<noteq> NaN"
    and "\<forall>b \<in> set banks. BloodBank.latitude b \<noteq> NaN \<and> BloodBank.longitude b \<noteq> NaN"
  shows "\<forall>r \<in> set ranked. distance_key r \<noteq> NaN"
  using assms
proof (induction banks arbitrary: ranked)
  case Nil
  then show ?case by simp
next
  case (Cons bank rest)
  obtain u v where l: "Location.latitude location = Fin u" "Location.longitude location = Fin v"
    using Cons.prems(2,3) by (cases "Location.latitude location"; cases "Location.longitude location") simp_all
  obtain p q where b: "BloodBank.latitude bank = Fin p" "BloodBank.longitude bank = Fin q"
    using Cons.prems(4) by (cases "BloodBank.latitude bank"; cases "BloodBank.longitude bank") simp_all
  from set_distances_total [of location rest] obtain rest' where
    r: "set_distances location rest = Inr rest'" by blast
  with Cons have "\<forall>r \<in> set rest'. distance_key r \<noteq> NaN" by simp
  moreover from Cons.prems(1) have "ranked = bank\<lparr>distance := Some (Fin (haversine_spec u v p q))\<rparr> # rest'"
    by (simp add: l b r haversine_Fin)
  ultimately show ?case by (simp add: distance_key_def)
qed

text \<open>
  What a ranking that returns has returned: as many of the loaded records as the first ten
  places hold, each with its distance; the first ten of the sorted list, sorted and
  stable, when no coordinate is NaN.
\<close>

lemma mset_take_subset: "mset (take n xs) \<subseteq># mset xs"
proof -
  have "mset xs = mset (take n xs) + mset (drop n xs)"
    by (metis append_take_drop_id mset_append)
  then show ?thesis by simp
qed

lemma nearby_when_it_returns:
  assumes "get_nearby P src location = Inr result" "load_blood_banks P src = Inr banks"
  shows "\<exists>ranked. set_distances location banks = Inr ranked
           \<and> map (\<lambda>b. b\<lparr>distance := None\<rparr>) ranked = banks
           \<and> mset result \<subseteq># mset ranked
           \<and> length result = min 10 (length banks)"
proof -
  from get_nearby_after_load [OF assms(2), of location] assms(1) obtain ranked where
    r: "set_distances location banks = Inr ranked"
       "result = take 10 (py_sorted distance_key ranked)"
    by auto
  from set_distances_total [of location banks] r(1) have
    l: "length ranked = length banks"
    and m: "map (\<lambda>b. b\<lparr>distance := None\<rparr>) ranked = map (\<lambda>b. b\<lparr>distance := None\<rparr>) banks"
    by simp_all
  have "b\<lparr>distance := None\<rparr> = b" if "b \<in> set banks" for b
    using loaded_distance_None [OF assms(2) that] by simp
  then have "map (\<lambda>b. b\<lparr>distance := None\<rparr>) banks = banks"
    by (simp add: map_idI)
  with m have k: "map (\<lambda>b. b\<lparr>distance := None\<rparr>) ranked = banks" by simp
  have "mset result \<subseteq># mset (py_sorted distance_key ranked)"
    unfolding r(2) by (rule mset_take_subset)
  then have s: "mset result \<subseteq># mset ranked" by (simp add: mset_py_sorted)
  have "length result = min 10 (length banks)"
    by (simp add: r(2) length_py_sorted l min_def)
  with r(1) k s show ?thesis by blast
qed

lemma nearby_sorted_stable_on_numbers:
  assumes "get_nearby P src location = Inr result" "load_blood_banks P src = Inr banks"
    and "Location.latitude location \<noteq> NaN" "Location.longitude location \<noteq> NaN"
    and "\<forall>b \<in> set banks. BloodBank.latitude b \<noteq> NaN \<and> BloodBank.longitude b \<noteq> NaN"
  shows "\<exists>ranked. set_distances location banks = Inr ranked
           \<and> result = take 10 (py_sorted distance_key ranked)
           \<and> sorted_wrt (not_after distance_key) (py_sorted distance_key ranked)
           \<and> (\<forall>c. filter (\<lambda>b. distance_key b = c) (py_sorted distance_key ranked)
                     = filter (\<lambda>b. distance_key b = c) ranked)"
proof -
  from get_nearby_after_load [OF assms(2), of location] assms(1) obtain ranked where
    r: "set_distances location banks = Inr ranked"
       "result = take 10 (py_sorted distance_key ranked)"
    by auto
  from ranked_numbers [OF r(1) assms(3,4,5)]
  have "sorted_wrt (not_after distance_key) (py_sorted distance_key ranked)"
    by (rule sorted_py_sorted)
  with r show ?thesis by (simp add: py_sorted_stable)
qed

subsection \<open>Routing\<close>

lemma route_body_keyed:
  assumes "GRAPHHOPPER_KEY env \<noteq> []"
  shows "route_body P env service a b c d calls
           = (service (route_request P (GRAPHHOPPER_KEY env) a b c d),
              calls @ [route_request P (GRAPHHOPPER_KEY env) a b c d])"
  using assms by (simp add: route_body_def Let_def)

lemma get_route_keyed_calls:
  assumes "GRAPHHOPPER_KEY env \<noteq> []"
  shows "snd (get_route P env service a b c d calls)
           = calls @ [route_request P (GRAPHHOPPER_KEY env) a b c d]"
proof (cases "service (route_request P (GRAPHHOPPER_KEY env) a b c d)")
  case (Inl e)
  then show ?thesis
    by (cases e) (simp_all add: get_route_def route_body_keyed [OF assms])
next
  case (Inr body)
  then show ?thesis by (simp add: get_route_def route_body_keyed [OF assms])
qed

lemma get_route_keyed_success:
  assumes "GRAPHHOPPER_KEY env \<noteq> []"
    and "service (route_request P (GRAPHHOPPER_KEY env) a b c d) = Inr body"
  shows "fst (get_route P env service a b c d calls) = Inr body"
  using assms(2) by (simp add: get_route_def route_body_keyed [OF assms(1)])

lemma get_route_empty_key:
  assumes "env ''GRAPHHOPPER_API_KEY'' = Some []"
  shows "get_route P env service a b c d calls
           = (Inl (HTTPException 500 ''500: Graphhopper API key not configured''), calls)"
  using assms by (simp add: get_route_def route_body_def GRAPHHOPPER_KEY_def digit_char_def)

lemma GRAPHHOPPER_KEY_unset:
  assumes "env ''GRAPHHOPPER_API_KEY'' = None"
  shows "GRAPHHOPPER_KEY env = ''9e9f9e52-ce51-4f10-b4e4-f3fd74b63123''"
  using assms by (simp add: GRAPHHOPPER_KEY_def)

subsection \<open>The small tables, evaluated\<close>

lemma ex_py_V2: "pydantic ex_py = V2"
  by (simp add: ex_py_def)

lemma ex_columns_stripped: "map str_strip (columns ex_frame) = col_mapping_values"
  by (simp add: ex_frame_def str_strip_def is_space_def col_mapping_values_def)

lemma ex_load: "load_blood_banks ex_py (Parsed ex_frame) = Inr ex_banks"
proof -
  have "List.map_filter (expected_bank ex_py col_mapping_values) (rows ex_frame) = ex_banks"
    apply (simp add: ex_frame_def List.map_filter_simps)
    apply (simp add: expected_bank_def col_mapping_values_def row_get_def row_str_def
        row_cells_def)
    apply (simp add: ex_banks_def ex_bank_def str_of_int_def digit_char_def ex_py_def)
    done
  then show ?thesis
    using load_blood_banks_V2 [OF ex_py_V2, of ex_frame]
    by (simp add: ex_columns_stripped)
qed


lemma ex_haversine_far: "haversine (Fin 0) (Fin 0) (Fin 0) (Fin 180) = Inr (Fin (6371 * pi))"
  by (simp add: haversine_Fin haversine_spec_def haversine_a_def atan2_def)

lemma ex_haversine_near: "haversine (Fin 0) (Fin 0) (Fin 0) (Fin 0) = Inr (Fin 0)"
  by (simp add: haversine_Fin haversine_spec_def haversine_a_def atan2_def)

lemma ex_haversine_blank: "haversine (Fin 0) (Fin 0) NaN (Fin 0) = Inr NaN"
  by (simp add: haversine_NaN)

lemma ex_set_distances: "set_distances ex_origin ex_banks = Inr ex_ranked"
  by (simp add: ex_banks_def ex_bank_def ex_origin_def ex_ranked_def
      ex_haversine_far ex_haversine_near ex_haversine_blank)

lemma ex_sorted: "py_sorted distance_key ex_ranked = ex_ranked"
  by (rule py_sorted_no_descent)
     (simp add: ex_ranked_def ex_bank_def distance_key_def py_lt_def)

lemma ex_get_nearby: "get_nearby ex_py (Parsed ex_frame) ex_origin = Inr ex_ranked"
proof -
  have "sorted_by_distance ex_py ex_ranked = Inr ex_ranked"
    by (rule trans [OF sorted_by_distance_ranked])
       (simp_all add: ex_sorted, simp add: ex_ranked_def)
  then show ?thesis
    by (simp add: get_nearby_def nearby_body_def ex_load ex_set_distances)
       (simp add: ex_ranked_def)
qed

lemma ex_short_columns:
  "map str_strip (columns ex_short) = [''Sr No'', ''Blood Bank Name'', ''City'', ''State'', ''longitude'']"
  by (simp add: ex_short_def str_strip_def is_space_def)

text \<open>The table with no blank comes back ranked: the near bank first.\<close>

lemma ex_clean_columns: "map str_strip (columns ex_clean) = col_mapping_values"
  by (simp add: ex_clean_def str_strip_def is_space_def col_mapping_values_def)

lemma ex_clean_load: "load_blood_banks ex_py (Parsed ex_clean) = Inr [ex_far, ex_near]"
proof -
  have "List.map_filter (expected_bank ex_py col_mapping_values) (rows ex_clean)
          = [ex_far, ex_near]"
    apply (simp add: ex_clean_def List.map_filter_simps)
    apply (simp add: expected_bank_def col_mapping_values_def row_get_def row_str_def
        row_cells_def)
    apply (simp add: ex_far_def ex_near_def ex_bank_def str_of_int_def digit_char_def ex_py_def)
    done
  then show ?thesis
    using load_blood_banks_V2 [OF ex_py_V2, of ex_clean]
    by (simp add: ex_clean_columns)
qed

lemma ex_clean_distances:
  "set_distances ex_origin [ex_far, ex_near]
     = Inr [ex_far\<lparr>distance := Some (Fin (6371 * pi))\<rparr>, ex_near\<lparr>distance := Some (Fin 0)\<rparr>]"
  by (simp add: ex_far_def ex_near_def ex_bank_def ex_origin_def
      ex_haversine_far ex_haversine_near)

lemma ex_clean_sorted:
  "py_sorted distance_key
     [ex_far\<lparr>distance := Some (Fin (6371 * pi))\<rparr>, ex_near\<lparr>distance := Some (Fin 0)\<rparr>]
   = [ex_near\<lparr>distance := Some (Fin 0)\<rparr>, ex_far\<lparr>distance := Some (Fin (6371 * pi))\<rparr>]"
  by (simp add: py_sorted_def distance_key_def py_lt_def)

lemma ex_clean_get_nearby:
  "get_nearby ex_py (Parsed ex_clean) ex_origin
     = Inr [ex_near\<lparr>distance := Some (Fin 0)\<rparr>, ex_far\<lparr>distance := Some (Fin (6371 * pi))\<rparr>]"
proof -
  from get_nearby_after_load [OF ex_clean_load, of ex_origin] obtain ranked where
    r: "set_distances ex_origin [ex_far, ex_near] = Inr ranked"
       "get_nearby ex_py (Parsed ex_clean) ex_origin = Inr (take 10 (py_sorted distance_key ranked))"
    by blast
  from r(1) have "ranked = [ex_far\<lparr>distance := Some (Fin (6371 * pi))\<rparr>,
                            ex_near\<lparr>distance := Some (Fin 0)\<rparr>]"
    by (simp only: ex_clean_distances sum.inject)
  with r(2) show ?thesis by (simp add: ex_clean_sorted)
qed

lemma nearby_sorted_stable_on_numbers_example:
  "get_nearby ex_py (Parsed ex_clean) ex_origin
     = Inr [ex_near\<lparr>distance := Some (Fin 0)\<rparr>, ex_far\<lparr>distance := Some (Fin (6371 * pi))\<rparr>]
   \<and> sorted_wrt (not_after distance_key)
        [ex_near\<lparr>distance := Some (Fin 0)\<rparr>, ex_far\<lparr>distance := Some (Fin (6371 * pi))\<rparr>]"
proof -
  have n: "\<forall>b \<in> set [ex_far, ex_near]. BloodBank.latitude b \<noteq> NaN \<and> BloodBank.longitude b \<noteq> NaN"
    by (simp add: ex_far_def ex_near_def ex_bank_def)
  have o: "Location.latitude ex_origin \<noteq> NaN" "Location.longitude ex_origin \<noteq> NaN"
    by (simp_all add: ex_origin_def)
  from nearby_sorted_stable_on_numbers [OF ex_clean_get_nearby ex_clean_load o n] obtain ranked where
    r: "set_distances ex_origin [ex_far, ex_near] = Inr ranked"
       "sorted_wrt (not_after distance_key) (py_sorted distance_key ranked)"
    by blast
  from r(1) have "ranked = [ex_far\<lparr>distance := Some (Fin (6371 * pi))\<rparr>,
                            ex_near\<lparr>distance := Some (Fin 0)\<rparr>]"
    by (simp only: ex_clean_distances sum.inject)
  with r(2) have "sorted_wrt (not_after distance_key)
        [ex_near\<lparr>distance := Some (Fin 0)\<rparr>, ex_far\<lparr>distance := Some (Fin (6371 * pi))\<rparr>]"
    by (simp only: ex_clean_sorted)
  with ex_clean_get_nearby show ?thesis by (rule conjI)
qed

text \<open>The table with a blank serial number.\<close>

lemma ex_serial_columns: "map str_strip (columns ex_serial) = col_mapping_values"
  by (simp add: ex_serial_def str_strip_def is_space_def col_mapping_values_def)

lemma ex_serial_load:
  "load_blood_banks ex_py (Parsed ex_serial)
     = Inr [ex_bank ''1.0'' ''A'' ''1 Main St'' ''P'' (Fin 0) (Fin 180),
            ex_bank ''nan'' ''B'' ''2 Side St'' ''Q'' (Fin 0) (Fin 90),
            ex_bank ''3.0'' ''C'' ''3 High St'' ''R'' (Fin 0) (Fin 0)]"
proof -
  have "List.map_filter (expected_bank ex_py col_mapping_values) (rows ex_serial)
     = [ex_bank ''1.0'' ''A'' ''1 Main St'' ''P'' (Fin 0) (Fin 180),
        ex_bank ''nan'' ''B'' ''2 Side St'' ''Q'' (Fin 0) (Fin 90),
        ex_bank ''3.0'' ''C'' ''3 High St'' ''R'' (Fin 0) (Fin 0)]"
    apply (simp add: ex_serial_def List.map_filter_simps)
    apply (simp add: expected_bank_def col_mapping_values_def row_get_def row_str_def
        row_cells_def)
    apply (simp add: ex_bank_def float_str_def str_of_int_def digit_char_def)
    done
  then show ?thesis
    using load_blood_banks_V2 [OF ex_py_V2, of ex_serial]
    by (simp add: ex_serial_columns)
qed





section \<open>The claims\<close>

text \<open>
  C1. For every table and origin, what get_nearby returns is sorted in non-decreasing
  order of distance, records at equal distance keeping the order of the table.
  The small table has a row with a blank latitude. The loader keeps the row, with NaN as
  its latitude; its distance is NaN, no comparison with it holds, and the three banks come
  back in the order of the table: the bank half way round the equator first, the bank at
  the origin last.
\<close>

theorem nearby_misorders_after_blank_latitude:
  "get_nearby ex_py (Parsed ex_frame) ex_origin = Inr ex_ranked
   \<and> map id' ex_ranked = [''1'', ''2'', ''3'']
   \<and> map distance ex_ranked = [Some (Fin (6371 * pi)), Some NaN, Some (Fin 0)]
   \<and> py_lt (Fin 0) (Fin (6371 * pi))"
  by (simp add: ex_get_nearby) (simp add: ex_ranked_def ex_bank_def py_lt_def)


text \<open>
  C4. For a table with every required column, load_blood_banks returns the rows whose
  latitude and longitude parse as floats and whose record can be built, each once and in
  the order of the table, and leaves every other row out.
  The second row of the small table has a blank latitude, which pandas reads as NaN.
  \<open>float\<close> takes NaN, the float field takes NaN, and the row is returned with NaN for its
  latitude instead of being left out.
\<close>

theorem load_keeps_row_with_blank_latitude:
  "load_blood_banks ex_py (Parsed ex_frame) = Inr ex_banks
   \<and> row_get (map str_strip (columns ex_frame)) (rows ex_frame ! 1) ''latitude''
       = Some (FloatCell NaN)
   \<and> map id' ex_banks = [''1'', ''2'', ''3'']
   \<and> map BloodBank.latitude ex_banks = [Fin 0, NaN, Fin 0]"
proof -
  have "row_get (map str_strip (columns ex_frame)) (rows ex_frame ! 1) ''latitude''
       = Some (FloatCell NaN)"
    unfolding ex_columns_stripped
    by (simp add: ex_frame_def col_mapping_values_def row_get_def row_cells_def)
  then show ?thesis
    by (simp add: ex_load) (simp add: ex_banks_def ex_bank_def)
qed

text \<open>
  C5. For a table that lacks a required column (labels stripped), load_blood_banks fails:
  it returns no records, and the error names the missing columns, in the order of
  col_mapping.
\<close>

theorem load_fails_on_missing_columns:
  assumes "\<not> set col_mapping_values \<subseteq> set (map str_strip (columns df0))"
  shows "filter (\<lambda>col. col \<notin> set (map str_strip (columns df0))) col_mapping_values \<noteq> []
       \<and> load_blood_banks P (Parsed df0)
           = Inl (HTTPException 500
                   (''CSV Error: CSV missing required columns: ''
                    @ join '', '' (filter (\<lambda>col. col \<notin> set (map str_strip (columns df0)))
                                     col_mapping_values)))"
proof
  show "filter (\<lambda>col. col \<notin> set (map str_strip (columns df0))) col_mapping_values \<noteq> []"
    using assms by (auto simp add: filter_empty_conv)
  show "load_blood_banks P (Parsed df0)
           = Inl (HTTPException 500
                   (''CSV Error: CSV missing required columns: ''
                    @ join '', '' (filter (\<lambda>col. col \<notin> set (map str_strip (columns df0)))
                                     col_mapping_values)))"
    using load_blood_banks_absent [OF assms, of P] by simp
qed

theorem load_fails_on_missing_columns_witness:
  "load_blood_banks ex_py (Parsed ex_short)
     = Inl (HTTPException 500 ''CSV Error: CSV missing required columns: Address, latitude'')"
proof -
  have "\<not> set col_mapping_values \<subseteq> set (map str_strip (columns ex_short))"
    by (simp add: ex_short_columns col_mapping_values_def)
  from load_fails_on_missing_columns [OF this, of ex_py]
  show ?thesis by (simp add: ex_short_columns col_mapping_values_def)
qed

text \<open>
  C6. A route request made when no key is configured in the environment fails with a
  configuration error and makes no outbound call.
  With the variable not set the key is the default written in the module, which is not
  empty: the handler makes one outbound call carrying that key, and answers with what the
  routing service answers.
\<close>

theorem route_without_key_in_environment_calls_out:
  "snd (get_route P Map.empty service start_lat start_lon end_lat end_lon calls)
     = calls @ [route_request P ''9e9f9e52-ce51-4f10-b4e4-f3fd74b63123''
                  start_lat start_lon end_lat end_lon]
   \<and> fst (get_route ex_py Map.empty (\<lambda>req. Inr (params req)) (Fin 0) (Fin 0) (Fin 0) (Fin 0) [])
     = Inr [(''point'', [''0.0,0.0'', ''0.0,0.0'']), (''vehicle'', [''car'']),
            (''key'', [''9e9f9e52-ce51-4f10-b4e4-f3fd74b63123'']),
            (''points_encoded'', [''false''])]"
proof
  have k: "GRAPHHOPPER_KEY Map.empty = ''9e9f9e52-ce51-4f10-b4e4-f3fd74b63123''"
    by (simp add: GRAPHHOPPER_KEY_unset)
  then have n: "GRAPHHOPPER_KEY Map.empty \<noteq> []" by simp
  show "snd (get_route P Map.empty service start_lat start_lon end_lat end_lon calls)
     = calls @ [route_request P ''9e9f9e52-ce51-4f10-b4e4-f3fd74b63123''
                  start_lat start_lon end_lat end_lon]"
    using get_route_keyed_calls [OF n, of P service start_lat start_lon end_lat end_lon calls]
    by (simp only: k)
  show "fst (get_route ex_py Map.empty (\<lambda>req. Inr (params req)) (Fin 0) (Fin 0) (Fin 0) (Fin 0) [])
     = Inr [(''point'', [''0.0,0.0'', ''0.0,0.0'']), (''vehicle'', [''car'']),
            (''key'', [''9e9f9e52-ce51-4f10-b4e4-f3fd74b63123'']),
            (''points_encoded'', [''false''])]"
    by (subst get_route_keyed_success [OF n, where body = "params (route_request ex_py
          (GRAPHHOPPER_KEY Map.empty) (Fin 0) (Fin 0) (Fin 0) (Fin 0))"])
       (simp_all add: k route_request_def float_str_def ex_py_def str_of_int_def digit_char_def)
qed

text \<open>
  C7. \<open>haversine(p, p) = 0\<close> for every point \<open>p\<close>, and \<open>haversine(a, b) = haversine(b, a)\<close>
  for every two points.
\<close>

theorem haversine_zero_and_symmetric:
  "haversine (Fin lat) (Fin lon) (Fin lat) (Fin lon) = Inr (Fin 0)
   \<and> haversine (Fin a1) (Fin a2) (Fin b1) (Fin b2) = haversine (Fin b1) (Fin b2) (Fin a1) (Fin a2)"
  by (simp add: haversine_Fin haversine_spec_def Let_def haversine_a_same atan2_def
      haversine_a_sym [of a1 a2 b1 b2])

text \<open>
  C8. Only the ranking sets the distance: every record get_nearby returns carries the
  distance haversine gives from the origin to its coordinates, and every record
  load_blood_banks or get_all_blood_banks returns carries none.
\<close>

theorem distance_set_by_ranking_only:
  "(get_nearby P src location = Inr result \<longrightarrow>
      (\<forall>r \<in> set result. \<exists>d.
          haversine (Location.latitude location) (Location.longitude location)
            (BloodBank.latitude r) (BloodBank.longitude r) = Inr d
          \<and> distance r = Some d))
   \<and> (load_blood_banks P src = Inr banks \<longrightarrow> (\<forall>b \<in> set banks. distance b = None))
   \<and> (get_all_blood_banks P src = Inr banks \<longrightarrow> (\<forall>b \<in> set banks. distance b = None))"
proof (intro conjI impI)
  assume g: "get_nearby P src location = Inr result"
  from get_nearby_Inr [OF g] obtain loaded where l: "load_blood_banks P src = Inr loaded" ..
  from get_nearby_after_load [OF l, of location] g obtain ranked where
    r: "set_distances location loaded = Inr ranked"
       "result = take 10 (py_sorted distance_key ranked)"
    by auto
  have "set result \<subseteq> set (py_sorted distance_key ranked)"
    unfolding r(2) by (rule set_take_subset)
  also have "\<dots> = set ranked"
    using mset_py_sorted [of distance_key ranked] by (rule mset_eq_setD)
  finally have "set result \<subseteq> set ranked" .
  with set_distances_total [of location loaded] r(1)
  show "\<forall>r \<in> set result. \<exists>d.
          haversine (Location.latitude location) (Location.longitude location)
            (BloodBank.latitude r) (BloodBank.longitude r) = Inr d
          \<and> distance r = Some d"
    by auto
next
  assume "load_blood_banks P src = Inr banks"
  then show "\<forall>b \<in> set banks. distance b = None"
    using loaded_distance_None by blast
next
  assume "get_all_blood_banks P src = Inr banks"
  then have "load_blood_banks P src = Inr banks"
    by (cases "load_blood_banks P src") (simp_all add: get_all_blood_banks_def)
  then show "\<forall>b \<in> set banks. distance b = None"
    using loaded_distance_None by blast
qed

theorem distance_set_by_ranking_only_witness:
  "get_nearby ex_py (Parsed ex_frame) ex_origin = Inr ex_ranked
   \<and> map distance ex_ranked = [Some (Fin (6371 * pi)), Some NaN, Some (Fin 0)]
   \<and> load_blood_banks ex_py (Parsed ex_frame) = Inr ex_banks
   \<and> get_all_blood_banks ex_py (Parsed ex_frame) = Inr ex_banks
   \<and> map distance ex_banks = [None, None, None]"
  using distance_set_by_ranking_only [of ex_py "Parsed ex_frame" ex_origin ex_ranked ex_banks]
  by (simp add: ex_get_nearby ex_load get_all_blood_banks_def)
     (simp add: ex_ranked_def ex_banks_def ex_bank_def)

text \<open>
  C9. The id of every record load_blood_banks returns is the serial number of its row,
  written as a string.
  In the table with a blank serial number pandas reads the column \<open>Sr No\<close> as floats. The
  row without a serial number is returned with the id \<open>nan\<close>, and the rows numbered 1 and
  3 are returned with the ids \<open>1.0\<close> and \<open>3.0\<close>.
\<close>

theorem blank_serial_number_makes_ids_floats:
  "map (\<lambda>row. row_cells (map str_strip (columns ex_serial)) row ''Sr No'') (rows ex_serial)
     = [[FloatCell (Fin 1)], [FloatCell NaN], [FloatCell (Fin 3)]]
   \<and> map_sum (\<lambda>e. e) (map id') (load_blood_banks ex_py (Parsed ex_serial))
     = Inr [''1.0'', ''nan'', ''3.0'']"
proof -
  have "map (\<lambda>row. row_cells (map str_strip (columns ex_serial)) row ''Sr No'') (rows ex_serial)
     = [[FloatCell (Fin 1)], [FloatCell NaN], [FloatCell (Fin 3)]]"
    unfolding ex_serial_columns
    by (simp add: ex_serial_def col_mapping_values_def row_cells_def)
  then show ?thesis
    by (simp add: ex_serial_load) (simp add: ex_bank_def)
qed




end
